theory Spec2Isabelle
  imports Main
begin

section \<open>Values handed to constructs\<close>

text \<open>
  The repository is a CDK program: each stack constructor declares resources and wires
  them together. A value given to a construct is a literal string, a reference to an
  attribute of another resource that is only known at deployment (\<open>queue.queueUrl\<close>,
  \<open>bucket.bucketName\<close>, \<open>this.account\<close>, ...), or a template literal mixing both.
  A reference carries the construct id of the resource it points to.
\<close>

datatype attr =
    Str string
  | AccountId
  | Region
  | QueueUrl string
  | BucketName string
  | SecretName string
  | SecretArn string
  | UserPoolId string
  | UserPoolClientId string
  | LoadBalancerDnsName string
  | InstanceIdentifier string
  | Template "attr list"

text \<open>
  At deployment every reference is replaced by the value the platform assigned;
  \<open>d\<close> is that assignment. A template literal is the concatenation of its parts.
\<close>

fun resolve :: "(attr \<Rightarrow> string) \<Rightarrow> attr \<Rightarrow> string" where
  "resolve d (Str s) = s"
| "resolve d (Template xs) = concat (map (resolve d) xs)"
| "resolve d AccountId = d AccountId"
| "resolve d Region = d Region"
| "resolve d (QueueUrl i) = d (QueueUrl i)"
| "resolve d (BucketName i) = d (BucketName i)"
| "resolve d (SecretName i) = d (SecretName i)"
| "resolve d (SecretArn i) = d (SecretArn i)"
| "resolve d (UserPoolId i) = d (UserPoolId i)"
| "resolve d (UserPoolClientId i) = d (UserPoolClientId i)"
| "resolve d (LoadBalancerDnsName i) = d (LoadBalancerDnsName i)"
| "resolve d (InstanceIdentifier i) = d (InstanceIdentifier i)"

text \<open>\<open>cdk.Duration\<close>, in seconds.\<close>

type_synonym duration = nat

definition minutes :: "nat \<Rightarrow> duration" where
  "minutes n = n * 60"

text \<open>
  \<open>Error msg\<close> is a \<open>throw new Error(msg)\<close> of the sources. \<open>ConstructError i\<close> is an
  exception thrown by the library construct with id \<open>i\<close> when it rejects its properties;
  its message is the library's.
\<close>

datatype error = Error string | ConstructError string

text \<open>
  \<open>process.env\<close>: a variable is unset (\<open>undefined\<close>) or holds a string.
  \<open>a || b\<close> on such a value takes \<open>b\<close> when \<open>a\<close> is undefined or the empty string.
\<close>

type_synonym process_env = "string \<Rightarrow> string option"

definition orElse :: "string option \<Rightarrow> string \<Rightarrow> string" where
  "orElse a b = (case a of None \<Rightarrow> b | Some v \<Rightarrow> if v = [] then b else v)"

section \<open>Resources\<close>

record queue =
  queueId :: string
  queueName :: string
  visibilityTimeout :: duration

definition queueUrl :: "queue \<Rightarrow> attr" where
  "queueUrl q = QueueUrl (queueId q)"

record bucket =
  bucketId :: string
  bucketNameProp :: "attr option"

definition bucketName :: "bucket \<Rightarrow> attr" where
  "bucketName b = BucketName (bucketId b)"

record secret =
  secretId :: string

definition secretName :: "secret \<Rightarrow> attr" where
  "secretName s = SecretName (secretId s)"

definition secretArn :: "secret \<Rightarrow> attr" where
  "secretArn s = SecretArn (secretId s)"

datatype architecture = ARM_64 | X86_64

record lambda_fn =
  fnId :: string
  code :: string
  timeout :: duration
  memorySize :: "nat option"
  architecture :: "architecture option"
  environment :: "(string \<times> attr) list"

text \<open>
  An event pattern lists, for some fields of an event (each named by its path), the
  values it accepts.
\<close>

type_synonym event_pattern = "(string list \<times> attr list) list"

record rule =
  ruleId :: string
  eventPattern :: event_pattern

text \<open>\<open>rds.Credentials.fromGeneratedSecret(username)\<close> is the only form the repository uses.\<close>

datatype credentials = FromGeneratedSecret string

record db_instance =
  dbId :: string
  engine :: string
  credentials :: credentials
  dbSecret :: "secret option"

text \<open>
  \<open>new rds.DatabaseInstance(scope, id, props)\<close>: with generated credentials the instance
  owns a secret, which \<open>instance.secret\<close> returns.
\<close>

definition DatabaseInstance :: "string \<Rightarrow> string \<Rightarrow> credentials \<Rightarrow> db_instance" where
  "DatabaseInstance i e c =
     \<lparr>dbId = i, engine = e, credentials = c,
      dbSecret = (case c of FromGeneratedSecret u \<Rightarrow> Some \<lparr>secretId = i @ ''Secret''\<rparr>)\<rparr>"

definition instanceIdentifier :: "db_instance \<Rightarrow> attr" where
  "instanceIdentifier db = InstanceIdentifier (dbId db)"

record user_pool_client =
  clientId :: string
  userPoolClientName :: string
  callbackUrls :: "attr list"

record container =
  containerId :: string
  containerName :: string
  containerEnvironment :: "(string \<times> attr) list"
  containerPorts :: "(nat \<times> nat) list"

text \<open>What a principal (a function or a role, named by its construct id) is allowed.\<close>

datatype grant =
    Connect string
  | BucketRead string
  | BucketWrite string
  | SendMessages string
  | SecretRead string
  | ManagedPolicy string
  | InlinePolicy "string list" "attr list"

section \<open>A stack and the calls that build it\<close>

text \<open>
  A stack is what its constructor has declared so far. Every \<open>new X(this, ...)\<close> and every
  wiring call of the source appends to one of these lists (\<open>f_update g s\<close> is the record
  \<open>s\<close> with \<open>g\<close> applied to its field \<open>f\<close>). Networking (VPC, subnets,
  security groups, the load balancer's listener) carries no claim and is left out.
\<close>

record stack =
  queues :: "queue list"
  buckets :: "bucket list"
  deployments :: "(string \<times> string \<times> string) list"
  lambdaFunctions :: "lambda_fn list"
  rules :: "rule list"
  targets :: "(string \<times> string) list"
  eventSources :: "(string \<times> string) list"
  notifications :: "(string \<times> string) list"
  grants :: "(string \<times> grant) list"
  dbInstances :: "db_instance list"
  secrets :: "secret list"
  userPoolClients :: "user_pool_client list"
  domainPrefixes :: "string list"
  certificates :: "attr list"
  containers :: "container list"

definition emptyStack :: stack where
  "emptyStack = \<lparr>queues = [], buckets = [], deployments = [], lambdaFunctions = [], rules = [],
     targets = [], eventSources = [], notifications = [], grants = [], dbInstances = [],
     secrets = [], userPoolClients = [], domainPrefixes = [], certificates = [],
     containers = []\<rparr>"

definition newQueue :: "queue \<Rightarrow> stack \<Rightarrow> stack" where
  "newQueue q s = queues_update (\<lambda>xs. xs @ [q]) s"

definition newBucket :: "bucket \<Rightarrow> stack \<Rightarrow> stack" where
  "newBucket b s = buckets_update (\<lambda>xs. xs @ [b]) s"

text \<open>\<open>new s3deploy.BucketDeployment(this, id, {sources: [asset], destinationBucket})\<close>.\<close>

definition newBucketDeployment :: "string \<Rightarrow> string \<Rightarrow> bucket \<Rightarrow> stack \<Rightarrow> stack" where
  "newBucketDeployment i asset b s = deployments_update (\<lambda>xs. xs @ [(i, asset, bucketId b)]) s"

definition newFunction :: "lambda_fn \<Rightarrow> stack \<Rightarrow> stack" where
  "newFunction f s = lambdaFunctions_update (\<lambda>xs. xs @ [f]) s"

definition newRule :: "rule \<Rightarrow> stack \<Rightarrow> stack" where
  "newRule r s = rules_update (\<lambda>xs. xs @ [r]) s"

definition newSecret :: "secret \<Rightarrow> stack \<Rightarrow> stack" where
  "newSecret x s = secrets_update (\<lambda>xs. xs @ [x]) s"

definition newDatabaseInstance :: "db_instance \<Rightarrow> stack \<Rightarrow> stack" where
  "newDatabaseInstance db s = dbInstances_update (\<lambda>xs. xs @ [db]) s"

definition addClient :: "user_pool_client \<Rightarrow> stack \<Rightarrow> stack" where
  "addClient c s = userPoolClients_update (\<lambda>xs. xs @ [c]) s"

definition addContainer :: "container \<Rightarrow> stack \<Rightarrow> stack" where
  "addContainer c s = containers_update (\<lambda>xs. xs @ [c]) s"

text \<open>\<open>rule.addTarget(new targets.LambdaFunction(fn))\<close>.\<close>

definition addTarget :: "rule \<Rightarrow> lambda_fn \<Rightarrow> stack \<Rightarrow> stack" where
  "addTarget r f s = targets_update (\<lambda>xs. xs @ [(ruleId r, fnId f)]) s"

text \<open>\<open>fn.addEventSource(new SqsEventSource(queue))\<close>.\<close>

definition addEventSource :: "lambda_fn \<Rightarrow> queue \<Rightarrow> stack \<Rightarrow> stack" where
  "addEventSource f q s = eventSources_update (\<lambda>xs. xs @ [(fnId f, queueId q)]) s"

text \<open>\<open>bucket.addEventNotification(OBJECT_CREATED, new s3notif.LambdaDestination(fn))\<close>.\<close>

definition addEventNotification :: "bucket \<Rightarrow> lambda_fn \<Rightarrow> stack \<Rightarrow> stack" where
  "addEventNotification b f s = notifications_update (\<lambda>xs. xs @ [(bucketId b, fnId f)]) s"

definition addGrant :: "string \<Rightarrow> grant \<Rightarrow> stack \<Rightarrow> stack" where
  "addGrant p g s = grants_update (\<lambda>xs. xs @ [(p, g)]) s"

definition grantConnect :: "db_instance \<Rightarrow> string \<Rightarrow> stack \<Rightarrow> stack" where
  "grantConnect db p = addGrant p (Connect (dbId db))"

definition grantRead :: "bucket \<Rightarrow> string \<Rightarrow> stack \<Rightarrow> stack" where
  "grantRead b p = addGrant p (BucketRead (bucketId b))"

definition grantWrite :: "bucket \<Rightarrow> string \<Rightarrow> stack \<Rightarrow> stack" where
  "grantWrite b p = addGrant p (BucketWrite (bucketId b))"

definition grantSendMessages :: "queue \<Rightarrow> string \<Rightarrow> stack \<Rightarrow> stack" where
  "grantSendMessages q p = addGrant p (SendMessages (queueId q))"

definition grantSecretRead :: "secret \<Rightarrow> string \<Rightarrow> stack \<Rightarrow> stack" where
  "grantSecretRead x p = addGrant p (SecretRead (secretId x))"

text \<open>
  \<open>fn.role?.addManagedPolicy(iam.ManagedPolicy.fromAwsManagedPolicyName(name))\<close>. A function
  declared with \<open>new lambda.Function\<close> and no \<open>role\<close> property gets a role of its own, so
  the optional call always happens.
\<close>

definition addManagedPolicy :: "string \<Rightarrow> string \<Rightarrow> stack \<Rightarrow> stack" where
  "addManagedPolicy p n = addGrant p (ManagedPolicy n)"

definition attachInlinePolicy :: "string \<Rightarrow> string list \<Rightarrow> attr list \<Rightarrow> stack \<Rightarrow> stack" where
  "attachInlinePolicy p acts res = addGrant p (InlinePolicy acts res)"

text \<open>\<open>new cognito.UserPoolDomain(this, id, {cognitoDomain: {domainPrefix}})\<close>.\<close>

definition newUserPoolDomain :: "string \<Rightarrow> stack \<Rightarrow> stack" where
  "newUserPoolDomain p s = domainPrefixes_update (\<lambda>xs. xs @ [p]) s"

text \<open>The certificate of the load balancer's HTTPS listener.\<close>

definition addCertificate :: "attr \<Rightarrow> stack \<Rightarrow> stack" where
  "addCertificate c s = certificates_update (\<lambda>xs. xs @ [c]) s"

text \<open>Queries on a finished stack, by construct id.\<close>

definition lookupFn :: "stack \<Rightarrow> string \<Rightarrow> lambda_fn option" where
  "lookupFn s i = find (\<lambda>f. fnId f = i) (lambdaFunctions s)"

definition lookupContainer :: "stack \<Rightarrow> string \<Rightarrow> container option" where
  "lookupContainer s i = find (\<lambda>c. containerId c = i) (containers s)"

definition lookupRule :: "stack \<Rightarrow> string \<Rightarrow> rule option" where
  "lookupRule s i = find (\<lambda>r. ruleId r = i) (rules s)"

definition grantsOf :: "stack \<Rightarrow> string \<Rightarrow> grant list" where
  "grantsOf s p = map snd (filter (\<lambda>x. fst x = p) (grants s))"

definition dockerArchitecture :: "process_env \<Rightarrow> architecture" where
  "dockerArchitecture env =
     (if env ''DOCKER_CONTAINER_PLATFORM_ARCH'' = Some ''arm'' then ARM_64 else X86_64)"

section \<open>lib/rds-ddl-automation-stack.ts\<close>

record RdsDdlAutomationStackProps =
  ddlTriggerQueue :: queue
  rdsInstance :: db_instance
  dbName :: string
  ddlSourceS3Bucket :: bucket
  ddlSourceStackName :: string

definition RdsDdlAutomationStack :: "process_env \<Rightarrow> RdsDdlAutomationStackProps \<Rightarrow> stack" where
  "RdsDdlAutomationStack env props =
    (let sourceS3Bucket = ddlSourceS3Bucket props;
         ddlInitDeployFn = \<lparr>fnId = ''ddlDeployFn'', code = ''../lambda/rds-ddl-init/'',
            timeout = minutes 3, memorySize = None, architecture = Some (dockerArchitecture env),
            environment = [(''DB_NAME'', Str (dbName props)),
                           (''SQS_QUEUE_URL'', queueUrl (ddlTriggerQueue props)),
                           (''DDL_SOURCE_BUCKET'', bucketName sourceS3Bucket)]\<rparr>;
         s = newFunction ddlInitDeployFn emptyStack;
         s = grantConnect (rdsInstance props) (fnId ddlInitDeployFn) s;
         s = addEventSource ddlInitDeployFn (ddlTriggerQueue props) s;
         s = grantRead sourceS3Bucket (fnId ddlInitDeployFn) s;
         s = addManagedPolicy (fnId ddlInitDeployFn) ''SecretsManagerReadWrite'' s;
         ddlChangeFn = \<lparr>fnId = ''ddlChangeFn'', code = ''../lambda/rds-ddl-change/'',
            timeout = minutes 10, memorySize = None, architecture = Some (dockerArchitecture env),
            environment = [(''DB_NAME'', Str (dbName props)),
                           (''SQS_QUEUE_URL'', queueUrl (ddlTriggerQueue props)),
                           (''DDL_SOURCE_BUCKET'', bucketName sourceS3Bucket)]\<rparr>;
         s = newFunction ddlChangeFn s;
         s = grantRead sourceS3Bucket (fnId ddlChangeFn) s;
         s = addManagedPolicy (fnId ddlChangeFn) ''SecretsManagerReadWrite'' s;
         s = grantConnect (rdsInstance props) (fnId ddlInitDeployFn) s;
         s = addManagedPolicy (fnId ddlChangeFn) ''AmazonRDSReadOnlyAccess'' s;
         cfnChangesetRule = \<lparr>ruleId = ''cfnChangesetRule'', eventPattern =
            [([''source''], [Str ''aws.cloudformation'']),
             ([''detail'', ''eventSource''], [Str ''cloudformation.amazonaws.com'']),
             ([''detail'', ''eventName''], [Str ''ExecuteChangeSet'']),
             ([''detail'', ''requestParameters'', ''stackName''], [Str (ddlSourceStackName props)])]\<rparr>;
         s = newRule cfnChangesetRule s;
         s = addTarget cfnChangesetRule ddlChangeFn s
     in s)"

section \<open>lib/rds-stack.ts\<close>

record rds_stack =
  rdsDBName :: string
  dbInstance :: db_instance
  rdsResources :: stack

definition RDSStack :: rds_stack where
  "RDSStack =
    (let dbName = ''postgres'';
         rdsInstance = DatabaseInstance ''rdsInstance'' ''POSTGRES'' (FromGeneratedSecret ''postgres'');
         s = newDatabaseInstance rdsInstance emptyStack
     in \<lparr>rdsDBName = dbName, dbInstance = rdsInstance, rdsResources = s\<rparr>)"

section \<open>lib/ddl-source-rds-stack.ts\<close>

record ddl_source_rds_stack =
  sourceS3Bucket :: bucket
  stackName :: string
  ddlSourceResources :: stack

text \<open>
  The constructor's \<open>id\<close> is the stack's name, since no \<open>stackName\<close> property is given.
  The only property is \<open>rdsInstance\<close>.
\<close>

definition DDLSourceRDSStack :: "string \<Rightarrow> db_instance \<Rightarrow> ddl_source_rds_stack" where
  "DDLSourceRDSStack i props_rdsInstance =
    (let ddlSourceBucket = \<lparr>bucketId = ''ddlSourceBucket'', bucketNameProp =
            Some (Template [Str ''ddl-source-'', instanceIdentifier props_rdsInstance])\<rparr>;
         s = newBucket ddlSourceBucket emptyStack;
         s = newBucketDeployment ''deployDDLSourceRDS'' ''../scripts/rds-ddl-sql'' ddlSourceBucket s
     in \<lparr>sourceS3Bucket = ddlSourceBucket, stackName = i, ddlSourceResources = s\<rparr>)"

section \<open>lib/pgvector-update-stack.ts\<close>

record PGVectorUpdateStackProps =
  pgv_processedBucket :: bucket
  pgv_collectionName :: attr
  pgv_apiKeySecret :: secret
  pgv_databaseCreds :: attr
  pgv_triggerQueue :: queue
  pgv_dbInstance :: db_instance

definition secretReadActions :: "string list" where
  "secretReadActions = [''secretsmanager:GetResourcePolicy'', ''secretsmanager:GetSecretValue'',
     ''secretsmanager:DescribeSecret'', ''secretsmanager:ListSecretVersionIds'']"

definition PGVectorUpdateStack :: "process_env \<Rightarrow> PGVectorUpdateStackProps \<Rightarrow> stack" where
  "PGVectorUpdateStack env props =
    (let pgvectorUpdateFn = \<lparr>fnId = ''pgvectorUpdate'', code = ''../lambda/pgvector-update/'',
            timeout = minutes 3, memorySize = Some 512,
            architecture = Some (dockerArchitecture env),
            environment = [(''API_KEY_SECRET_NAME'', secretName (pgv_apiKeySecret props)),
                           (''DB_CREDS'', pgv_databaseCreds props),
                           (''COLLECTION_NAME'', pgv_collectionName props),
                           (''QUEUE_URL'', queueUrl (pgv_triggerQueue props)),
                           (''NLTK_DATA'', Str ''/tmp'')]\<rparr>;
         s = newFunction pgvectorUpdateFn emptyStack;
         s = grantRead (pgv_processedBucket props) (fnId pgvectorUpdateFn) s;
         s = grantSecretRead (pgv_apiKeySecret props) (fnId pgvectorUpdateFn) s;
         s = grantConnect (pgv_dbInstance props) (fnId pgvectorUpdateFn) s;
         s = addEventSource pgvectorUpdateFn (pgv_triggerQueue props) s;
         s = attachInlinePolicy (fnId pgvectorUpdateFn) secretReadActions [pgv_databaseCreds props] s
     in s)"

section \<open>lib/rag-app-stack.ts\<close>

record RagAppStackProps =
  rag_databaseCreds :: attr
  rag_collectionName :: attr
  rag_apiKeySecret :: secret
  rag_dbInstance :: db_instance

definition RagAppStack :: "RagAppStackProps \<Rightarrow> stack" where
  "RagAppStack props =
    (let ragTaskRole = ''RagTaskRole'';
         s = attachInlinePolicy ragTaskRole secretReadActions [rag_databaseCreds props] emptyStack;
         s = attachInlinePolicy ragTaskRole [''bedrock:InvokeModel''] [Str ''*''] s;
         s = grantSecretRead (rag_apiKeySecret props) ragTaskRole s;
         s = grantConnect (rag_dbInstance props) ragTaskRole s;
         s = addManagedPolicy ''TaskExecRole'' ''service-role/AmazonECSTaskExecutionRolePolicy'' s;
         containerName = ''ragAppPostgresVec'';
         ragContainer = \<lparr>containerId = ''rag-container'', containerName = containerName,
            containerEnvironment =
              [(''AWS_REGION'', Template [Region]),
               (''DB_CREDS'', rag_databaseCreds props),
               (''COLLECTION_NAME'', rag_collectionName props),
               (''API_KEY_SECRET_NAME'', secretName (rag_apiKeySecret props))],
            containerPorts = [(8501, 8501)]\<rparr>;
         s = addContainer ragContainer s
     in s)"

section \<open>lib/base-infra-stack.ts\<close>

record base_infra_stack =
  knowledgeBaseBucket :: bucket
  processedBucket :: bucket
  rdsDdlTriggerQueue :: queue
  pgvectorQueue :: queue
  pgvectorCollectionName :: attr
  apiKeySecret :: secret
  baseResources :: stack

text \<open>
  \<open>new cognito.UserPoolDomain\<close> rejects a domain prefix that is a non-empty literal with
  a character outside lower-case letters, digits and the hyphen.
\<close>

definition validDomainPrefix :: "string \<Rightarrow> bool" where
  "validDomainPrefix p =
     list_all (\<lambda>c. c \<in> set ''abcdefghijklmnopqrstuvwxyz0123456789-'') p"

definition validRegions :: "string list" where
  "validRegions = [''us-east-1'', ''us-west-2'', ''eu-west-2'']"

definition BaseInfraStack :: "process_env \<Rightarrow> error + base_infra_stack" where
  \<open>BaseInfraStack env =
    (let regionPrefix = orElse (env ''CDK_DEFAULT_REGION'') ''us-east-1'' in
     if regionPrefix \<notin> set validRegions
     then Inl (Error ''Unsupported CDK_DEFAULT_REGION specified'')
     else
     let collection = Template [Str ''pgvector-collection-'', Str regionPrefix, Str ''-'', AccountId];
         docsBucket = \<lparr>bucketId = ''knowledgeBase'', bucketNameProp = None\<rparr>;
         s = newBucket docsBucket emptyStack;
         s = newBucketDeployment ''knowledgeBaseBucketDeploy'' ''../knowledgebase'' docsBucket s;
         processedTextBucket = \<lparr>bucketId = ''processedText'', bucketNameProp = None\<rparr>;
         s = newBucket processedTextBucket s;
         lambdaFn = \<lparr>fnId = ''pdfProcessorFn'', code = ''../lambda/pdf-processor/'',
            timeout = minutes 15, memorySize = Some 512,
            architecture = Some (dockerArchitecture env),
            environment = [(''SOURCE_BUCKET_NAME'', bucketName docsBucket),
                           (''DESTINATION_BUCKET_NAME'', bucketName processedTextBucket)]\<rparr>;
         s = newFunction lambdaFn s;
         s = grantRead docsBucket (fnId lambdaFn) s;
         s = grantWrite processedTextBucket (fnId lambdaFn) s;
         s = addEventNotification docsBucket lambdaFn s;
         rdsDdlDetectionQueue = \<lparr>queueId = ''rdsDdlDetectionQueue'',
            queueName = ''RDS_DDL_Detection_Queue'', visibilityTimeout = minutes 6\<rparr>;
         s = newQueue rdsDdlDetectionQueue s;
         rdsDdlTriggerFn = \<lparr>fnId = ''rdsDdlTriggerFn'', code = ''../lambda/rds-ddl-trigger'',
            timeout = minutes 2, memorySize = None, architecture = None,
            environment = [(''RDS_DDL_QUEUE_URL'', queueUrl rdsDdlDetectionQueue)]\<rparr>;
         s = newFunction rdsDdlTriggerFn s;
         s = grantSendMessages rdsDdlDetectionQueue (fnId rdsDdlTriggerFn) s;
         eventBridgeCreateDBRule = \<lparr>ruleId = ''eventBridgeCreateDBRule'', eventPattern =
            [([''source''], [Str ''aws.rds'']),
             ([''detail'', ''eventSource''], [Str ''rds.amazonaws.com'']),
             ([''detail'', ''eventName''], [Str ''CreateDBInstance''])]\<rparr>;
         s = newRule eventBridgeCreateDBRule s;
         s = addTarget eventBridgeCreateDBRule rdsDdlTriggerFn s;
         oaiSecret = ''openAiApiKey'';
         openAiApiKey = \<lparr>secretId = oaiSecret\<rparr>;
         s = newSecret openAiApiKey s;
         pgVectorUpdateQueue = \<lparr>queueId = ''pgVectorUpdateQueue'',
            queueName = ''PGVector_Update_Queue'', visibilityTimeout = minutes 5\<rparr>;
         s = newQueue pgVectorUpdateQueue s;
         pgvectorTriggerFn = \<lparr>fnId = ''pgvectorTrigger'', code = ''../lambda/pgvector-trigger'',
            timeout = minutes 2, memorySize = None, architecture = None,
            environment = [(''PGVECTOR_UPDATE_QUEUE'', queueUrl pgVectorUpdateQueue),
                           (''BUCKET_NAME'', bucketName processedTextBucket)]\<rparr>;
         s = newFunction pgvectorTriggerFn s;
         s = addEventNotification processedTextBucket pgvectorTriggerFn s;
         s = grantSendMessages pgVectorUpdateQueue (fnId pgvectorTriggerFn) s;
         appLoadBalancer = ''ragAppLb'';
         certName = env ''IAM_SELF_SIGNED_SERVER_CERT_NAME''
     in
     if certName = None \<or> certName = Some ''''
     then Inl (Error ''Please specify the "IAM_SELF_SIGNED_SERVER_CERT_NAME" env var'')
     else
     let cognitoDomain = env ''COGNITO_DOMAIN_NAME'' in
     if cognitoDomain = None \<or> cognitoDomain = Some ''''
     then Inl (Error ''Please specify the "COGNITO_DOMAIN_NAME" env var'')
     else
     let appClientCreationQueue = \<lparr>queueId = ''appClientCreateQueue'',
            queueName = ''COG_APP_CLIENT_CREATE_QUEUE'', visibilityTimeout = minutes 5\<rparr>;
         s = newQueue appClientCreationQueue s;
         appClientCreateTriggerFn = \<lparr>fnId = ''appClientCreateTrigger'',
            code = ''../lambda/app-client-create-trigger'',
            timeout = minutes 2, memorySize = None, architecture = None,
            environment = [(''TRIGGER_QUEUE'', queueUrl appClientCreationQueue)]\<rparr>;
         s = newFunction appClientCreateTriggerFn s;
         s = grantSendMessages appClientCreationQueue (fnId appClientCreateTriggerFn) s;
         appClientCreateRule = \<lparr>ruleId = ''appClientCreateRule'', eventPattern =
            [([''source''], [Str ''aws.cognito-idp'']),
             ([''detail'', ''eventSource''], [Str ''cognito-idp.amazonaws.com'']),
             ([''detail'', ''eventName''], [Str ''CreateUserPoolClient'']),
             ([''detail'', ''sourceIPAddress''], [Str ''cloudformation.amazonaws.com''])]\<rparr>;
         s = newRule appClientCreateRule s;
         s = addTarget appClientCreateRule appClientCreateTriggerFn s;
         userPool = ''UserPool''
     in
     if the cognitoDomain \<noteq> [] \<and> \<not> validDomainPrefix (the cognitoDomain)
     then Inl (ConstructError ''upDomain'')
     else
     let s = newUserPoolDomain (the cognitoDomain) s;
         client = \<lparr>clientId = ''WebClient'', userPoolClientName = ''MyAppWebClient'',
            callbackUrls = [Template [Str ''https://'', LoadBalancerDnsName appLoadBalancer,
                                      Str ''/oauth2/idpresponse'']]\<rparr>;
         s = addClient client s;
         s = addCertificate (Template [Str ''arn:aws:iam::'', AccountId,
                Str '':server-certificate/'', Str (the certName)]) s;
         callBackInitFn = \<lparr>fnId = ''callBackInit'', code = ''../lambda/call-back-url-init'',
            timeout = minutes 2, memorySize = None, architecture = None,
            environment = [(''USER_POOL_ID'', UserPoolId userPool),
                           (''APP_CLIENT_ID'', UserPoolClientId (clientId client)),
                           (''ALB_DNS_NAME'', LoadBalancerDnsName appLoadBalancer),
                           (''SQS_QUEUE_URL'', queueUrl appClientCreationQueue)]\<rparr>;
         s = newFunction callBackInitFn s;
         s = addManagedPolicy (fnId callBackInitFn) ''AmazonCognitoPowerUser'' s;
         s = addEventSource callBackInitFn appClientCreationQueue s;
         callBackUpdateFn = \<lparr>fnId = ''callBackUpdate'', code = ''../lambda/call-back-url-update'',
            timeout = minutes 2, memorySize = None, architecture = None,
            environment = [(''USER_POOL_ID'', UserPoolId userPool),
                           (''APP_CLIENT_ID'', UserPoolClientId (clientId client)),
                           (''ALB_DNS_NAME'', LoadBalancerDnsName appLoadBalancer)]\<rparr>;
         s = newFunction callBackUpdateFn s;
         s = addManagedPolicy (fnId callBackUpdateFn) ''AmazonCognitoPowerUser'' s;
         appClientUpdateRule = \<lparr>ruleId = ''appClientUpdateRule'', eventPattern =
            [([''source''], [Str ''aws.cognito-idp'']),
             ([''detail'', ''eventSource''], [Str ''cognito-idp.amazonaws.com'']),
             ([''detail'', ''eventName''], [Str ''UpdateUserPoolClient'']),
             ([''detail'', ''sourceIPAddress''], [Str ''cloudformation.amazonaws.com''])]\<rparr>;
         s = newRule appClientUpdateRule s;
         s = addTarget appClientUpdateRule callBackUpdateFn s
     in Inr \<lparr>knowledgeBaseBucket = docsBucket, processedBucket = processedTextBucket,
             rdsDdlTriggerQueue = rdsDdlDetectionQueue, pgvectorQueue = pgVectorUpdateQueue,
             pgvectorCollectionName = collection, apiKeySecret = openAiApiKey,
             baseResources = s\<rparr>)\<close>

section \<open>bin/rag-with-amazon-bedrock-and-rds-pgvector.ts\<close>

record app =
  baseInfraStack :: base_infra_stack
  rdsStack :: rds_stack
  ddlSourceStack :: ddl_source_rds_stack
  ddlAutomationStack :: stack
  pgvectorUpdateStack :: stack
  ragStack :: stack

text \<open>\<open>rds.dbInstance.secret?.secretArn || ""\<close>.\<close>

definition secretArnOrEmpty :: "db_instance \<Rightarrow> attr" where
  "secretArnOrEmpty db = (case dbSecret db of None \<Rightarrow> Str '''' | Some x \<Rightarrow> secretArn x)"

text \<open>
  The program: the stacks in the order they are created. An exception thrown by the
  first constructor ends it. (The optional test EC2 stack carries no claim and is left
  out.)
\<close>

definition main :: "process_env \<Rightarrow> error + app" where
  "main env =
    (case BaseInfraStack env of
       Inl e \<Rightarrow> Inl e
     | Inr baseInfra \<Rightarrow>
        (let rds = RDSStack;
             ddlSource = DDLSourceRDSStack ''ddlSourceStack'' (dbInstance rds);
             ddlAutomation = RdsDdlAutomationStack env
               \<lparr>ddlTriggerQueue = rdsDdlTriggerQueue baseInfra,
                rdsInstance = dbInstance rds,
                dbName = rdsDBName rds,
                ddlSourceS3Bucket = sourceS3Bucket ddlSource,
                ddlSourceStackName = stackName ddlSource\<rparr>;
             pgvectorUpdate = PGVectorUpdateStack env
               \<lparr>pgv_processedBucket = processedBucket baseInfra,
                pgv_collectionName = pgvectorCollectionName baseInfra,
                pgv_apiKeySecret = apiKeySecret baseInfra,
                pgv_databaseCreds = secretArnOrEmpty (dbInstance rds),
                pgv_triggerQueue = pgvectorQueue baseInfra,
                pgv_dbInstance = dbInstance rds\<rparr>;
             ragApp = RagAppStack
               \<lparr>rag_databaseCreds = secretArnOrEmpty (dbInstance rds),
                rag_collectionName = pgvectorCollectionName baseInfra,
                rag_apiKeySecret = apiKeySecret baseInfra,
                rag_dbInstance = dbInstance rds\<rparr>
         in Inr \<lparr>baseInfraStack = baseInfra, rdsStack = rds, ddlSourceStack = ddlSource,
                 ddlAutomationStack = ddlAutomation, pgvectorUpdateStack = pgvectorUpdate,
                 ragStack = ragApp\<rparr>))"

definition appStacks :: "app \<Rightarrow> stack list" where
  "appStacks a = [baseResources (baseInfraStack a), rdsResources (rdsStack a),
     ddlSourceResources (ddlSourceStack a), ddlAutomationStack a, pgvectorUpdateStack a,
     ragStack a]"

section \<open>The wiring of a deployed application\<close>

text \<open>What invokes a function: a queue it polls, a rule it is a target of, a bucket notification.\<close>

datatype trigger = SqsTrigger string | RuleTrigger string | BucketTrigger string

definition triggersOf :: "stack \<Rightarrow> string \<Rightarrow> trigger list" where
  "triggersOf s f =
     map (\<lambda>x. SqsTrigger (snd x)) (filter (\<lambda>x. fst x = f) (eventSources s))
     @ map (\<lambda>x. RuleTrigger (fst x)) (filter (\<lambda>x. snd x = f) (targets s))
     @ map (\<lambda>x. BucketTrigger (fst x)) (filter (\<lambda>x. snd x = f) (notifications s))"

text \<open>The functions that poll a queue, over all stacks of the application.\<close>

definition consumersOf :: "app \<Rightarrow> string \<Rightarrow> lambda_fn list" where
  "consumersOf a q =
     concat (map (\<lambda>s. filter (\<lambda>f. (fnId f, q) \<in> set (eventSources s)) (lambdaFunctions s))
       (appStacks a))"

text \<open>
  An event, as the event bus sees it: its fields by path. A pattern matches when every
  field it lists is present with one of the listed values; a rule hands a matching event
  to each of its targets, once per target.
\<close>

type_synonym event = "(string list \<times> string) list"

definition matchesPattern :: "event_pattern \<Rightarrow> event \<Rightarrow> bool" where
  "matchesPattern p e =
     list_all (\<lambda>x. case map_of e (fst x) of None \<Rightarrow> False | Some v \<Rightarrow> Str v \<in> set (snd x)) p"

definition invoked :: "stack \<Rightarrow> event \<Rightarrow> string list" where
  "invoked s e =
     concat (map (\<lambda>r. map snd (filter (\<lambda>x. fst x = ruleId r) (targets s)))
       (filter (\<lambda>r. matchesPattern (eventPattern r) e) (rules s)))"

text \<open>What invokes a function anywhere in the application.\<close>

definition appTriggersOf :: "app \<Rightarrow> string \<Rightarrow> trigger list" where
  "appTriggersOf a f = concat (map (\<lambda>s. triggersOf s f) (appStacks a))"

section \<open>The Change Detector\<close>

record send_attempt =
  sendQueueUrl :: attr
  messageBody :: event

text \<open>
  Modelled from the spec: the handler of the Change Detector
  (\<open>lambda/rds-ddl-trigger/app.py\<close>) is not among the sources. Section 4.1: on a match
  the detector enqueues a TriggerMessage, "every matching event produces exactly one
  message send attempt"; section 6: the queue endpoint comes from the environment, the
  body is opaque and identifies what to process. The function needs the variable
  \<open>RDS_DDL_QUEUE_URL\<close> its declaration provides.
\<close>

definition rdsDdlTrigger_handler :: "lambda_fn \<Rightarrow> event \<Rightarrow> send_attempt list" where
  "rdsDdlTrigger_handler f e =
     (case map_of (environment f) ''RDS_DDL_QUEUE_URL'' of
        None \<Rightarrow> []
      | Some url \<Rightarrow> [\<lparr>sendQueueUrl = url, messageBody = e\<rparr>])"

text \<open>
  The detector as declared: the event bus hands an event to \<open>rdsDdlTriggerFn\<close> once for
  every matching rule that has it as a target, and each invocation runs the handler.
\<close>

definition changeDetector :: "stack \<Rightarrow> event \<Rightarrow> send_attempt list" where
  "changeDetector s e =
     concat (map (\<lambda>i. case lookupFn s i of None \<Rightarrow> [] | Some f \<Rightarrow> rdsDdlTrigger_handler f e)
       (filter (\<lambda>i. i = ''rdsDdlTriggerFn'') (invoked s e)))"

section \<open>The callback-URL patch worker\<close>

text \<open>
  Modelled from the spec: the handlers of the patch worker
  (\<open>lambda/call-back-url-init/app.py\<close>, \<open>lambda/call-back-url-update/app.py\<close>) are not
  among the sources. Section 4.4: the worker "update[s] the client's callback URL to the
  lower-cased hostname" in "a single idempotent update call". Lower-casing is that of
  ASCII letters, the only letters a hostname has. The URL around the hostname is the
  one \<open>BaseInfraStack\<close> gives the client; client and hostname come from the variables
  \<open>APP_CLIENT_ID\<close> and \<open>ALB_DNS_NAME\<close> its declaration provides.
\<close>

definition lower_char :: "char \<Rightarrow> char" where
  "lower_char c =
     (let n = (of_char c :: nat) in if 65 \<le> n \<and> n \<le> 90 then char_of (n + 32) else c)"

definition lower :: "string \<Rightarrow> string" where
  "lower s = map lower_char s"

text \<open>The identity provider's store: the callback URLs of each app client, by client id.\<close>

type_synonym identity_provider = "string \<Rightarrow> string list option"

text \<open>What deploying a stack stores: each declared client with its callback URLs resolved.\<close>

definition deployClients :: "(attr \<Rightarrow> string) \<Rightarrow> stack \<Rightarrow> identity_provider" where
  "deployClients d s =
     map_of (map (\<lambda>c. (d (UserPoolClientId (clientId c)), map (resolve d) (callbackUrls c)))
       (userPoolClients s))"

definition callBack_handler ::
  "(attr \<Rightarrow> string) \<Rightarrow> lambda_fn \<Rightarrow> identity_provider \<Rightarrow> identity_provider" where
  "callBack_handler d f idp =
     (case map_of (environment f) ''APP_CLIENT_ID'' of
        None \<Rightarrow> idp
      | Some c \<Rightarrow>
         (case map_of (environment f) ''ALB_DNS_NAME'' of
            None \<Rightarrow> idp
          | Some h \<Rightarrow>
             idp(resolve d c \<mapsto> [''https://'' @ lower (resolve d h) @ ''/oauth2/idpresponse''])))"

section \<open>Example inputs\<close>

text \<open>An environment with the two required variables set and the region left unset.\<close>

definition exampleEnv :: process_env where
  "exampleEnv = map_of [(''IAM_SELF_SIGNED_SERVER_CERT_NAME'', ''rag-cert''),
                        (''COGNITO_DOMAIN_NAME'', ''rag-demo'')]"

text \<open>A deployment whose load balancer got a mixed-case hostname.\<close>

definition exampleDeployment :: "attr \<Rightarrow> string" where
  "exampleDeployment x =
     (case x of LoadBalancerDnsName i \<Rightarrow> ''ABC123.elb.amazonaws.com''
      | UserPoolClientId i \<Rightarrow> ''client-1''
      | _ \<Rightarrow> [])"

text \<open>Two events of the database service, as the trail records them.\<close>

definition createDBEvent :: event where
  "createDBEvent = [([''source''], ''aws.rds''),
     ([''detail'', ''eventSource''], ''rds.amazonaws.com''),
     ([''detail'', ''eventName''], ''CreateDBInstance''),
     ([''detail'', ''requestParameters'', ''dBInstanceIdentifier''], ''rdsinstance'')]"

definition deleteDBEvent :: event where
  "deleteDBEvent = [([''source''], ''aws.rds''),
     ([''detail'', ''eventSource''], ''rds.amazonaws.com''),
     ([''detail'', ''eventName''], ''DeleteDBInstance'')]"

section \<open>What each constructor declares\<close>

lemmas stack_calls =
  emptyStack_def newQueue_def newBucket_def newBucketDeployment_def newFunction_def
  newRule_def newSecret_def newDatabaseInstance_def addClient_def addContainer_def
  addTarget_def addEventSource_def addEventNotification_def addGrant_def grantConnect_def
  grantRead_def grantWrite_def grantSendMessages_def grantSecretRead_def
  addManagedPolicy_def attachInlinePolicy_def newUserPoolDomain_def addCertificate_def

lemma BaseInfraStack_Inr_env:
  assumes "BaseInfraStack env = Inr b"
  shows "orElse (env ''CDK_DEFAULT_REGION'') ''us-east-1'' \<in> set validRegions"
    and "env ''IAM_SELF_SIGNED_SERVER_CERT_NAME'' \<noteq> None"
    and "env ''IAM_SELF_SIGNED_SERVER_CERT_NAME'' \<noteq> Some ''''"
    and "env ''COGNITO_DOMAIN_NAME'' \<noteq> None"
    and "env ''COGNITO_DOMAIN_NAME'' \<noteq> Some ''''"
    and "validDomainPrefix (the (env ''COGNITO_DOMAIN_NAME''))"
  using assms by (auto simp: BaseInfraStack_def Let_def split: if_splits)

lemma BaseInfraStack_ok:
  assumes "orElse (env ''CDK_DEFAULT_REGION'') ''us-east-1'' \<in> set validRegions"
    and "env ''IAM_SELF_SIGNED_SERVER_CERT_NAME'' \<noteq> None"
    and "env ''IAM_SELF_SIGNED_SERVER_CERT_NAME'' \<noteq> Some ''''"
    and "env ''COGNITO_DOMAIN_NAME'' \<noteq> None"
    and "env ''COGNITO_DOMAIN_NAME'' \<noteq> Some ''''"
    and "validDomainPrefix (the (env ''COGNITO_DOMAIN_NAME''))"
  shows "\<exists>b. BaseInfraStack env = Inr b"
  using assms by (simp add: BaseInfraStack_def Let_def)

lemma base_fields:
  assumes "BaseInfraStack env = Inr b"
  shows "rdsDdlTriggerQueue b = \<lparr>queueId = ''rdsDdlDetectionQueue'',
            queueName = ''RDS_DDL_Detection_Queue'', visibilityTimeout = minutes 6\<rparr>"
    and "pgvectorQueue b = \<lparr>queueId = ''pgVectorUpdateQueue'',
            queueName = ''PGVector_Update_Queue'', visibilityTimeout = minutes 5\<rparr>"
    and "pgvectorCollectionName b = Template [Str ''pgvector-collection-'',
            Str (orElse (env ''CDK_DEFAULT_REGION'') ''us-east-1''), Str ''-'', AccountId]"
    and "apiKeySecret b = \<lparr>secretId = ''openAiApiKey''\<rparr>"
    and "processedBucket b = \<lparr>bucketId = ''processedText'', bucketNameProp = None\<rparr>"
  using assms by (auto simp: BaseInfraStack_def Let_def split: if_splits)

lemma base_rules:
  assumes "BaseInfraStack env = Inr b"
  shows "rules (baseResources b) =
    [\<lparr>ruleId = ''eventBridgeCreateDBRule'', eventPattern =
        [([''source''], [Str ''aws.rds'']),
         ([''detail'', ''eventSource''], [Str ''rds.amazonaws.com'']),
         ([''detail'', ''eventName''], [Str ''CreateDBInstance''])]\<rparr>,
     \<lparr>ruleId = ''appClientCreateRule'', eventPattern =
        [([''source''], [Str ''aws.cognito-idp'']),
         ([''detail'', ''eventSource''], [Str ''cognito-idp.amazonaws.com'']),
         ([''detail'', ''eventName''], [Str ''CreateUserPoolClient'']),
         ([''detail'', ''sourceIPAddress''], [Str ''cloudformation.amazonaws.com''])]\<rparr>,
     \<lparr>ruleId = ''appClientUpdateRule'', eventPattern =
        [([''source''], [Str ''aws.cognito-idp'']),
         ([''detail'', ''eventSource''], [Str ''cognito-idp.amazonaws.com'']),
         ([''detail'', ''eventName''], [Str ''UpdateUserPoolClient'']),
         ([''detail'', ''sourceIPAddress''], [Str ''cloudformation.amazonaws.com''])]\<rparr>]"
  using assms by (auto simp: BaseInfraStack_def Let_def stack_calls split: if_splits)

lemma base_targets:
  assumes "BaseInfraStack env = Inr b"
  shows "targets (baseResources b) =
     [(''eventBridgeCreateDBRule'', ''rdsDdlTriggerFn''),
      (''appClientCreateRule'', ''appClientCreateTrigger''),
      (''appClientUpdateRule'', ''callBackUpdate'')]"
  using assms by (auto simp: BaseInfraStack_def Let_def stack_calls split: if_splits)

lemma base_eventSources:
  assumes "BaseInfraStack env = Inr b"
  shows "eventSources (baseResources b) = [(''callBackInit'', ''appClientCreateQueue'')]"
  using assms by (auto simp: BaseInfraStack_def Let_def stack_calls split: if_splits)

lemma base_notifications:
  assumes "BaseInfraStack env = Inr b"
  shows "notifications (baseResources b) =
     [(''knowledgeBase'', ''pdfProcessorFn''), (''processedText'', ''pgvectorTrigger'')]"
  using assms by (auto simp: BaseInfraStack_def Let_def stack_calls split: if_splits)

lemma base_grants:
  assumes "BaseInfraStack env = Inr b"
  shows "grants (baseResources b) =
     [(''pdfProcessorFn'', BucketRead ''knowledgeBase''),
      (''pdfProcessorFn'', BucketWrite ''processedText''),
      (''rdsDdlTriggerFn'', SendMessages ''rdsDdlDetectionQueue''),
      (''pgvectorTrigger'', SendMessages ''pgVectorUpdateQueue''),
      (''appClientCreateTrigger'', SendMessages ''appClientCreateQueue''),
      (''callBackInit'', ManagedPolicy ''AmazonCognitoPowerUser''),
      (''callBackUpdate'', ManagedPolicy ''AmazonCognitoPowerUser'')]"
  using assms by (auto simp: BaseInfraStack_def Let_def stack_calls split: if_splits)

lemma base_functions:
  assumes "BaseInfraStack env = Inr b"
  shows "lambdaFunctions (baseResources b) =
    [\<lparr>fnId = ''pdfProcessorFn'', code = ''../lambda/pdf-processor/'',
       timeout = minutes 15, memorySize = Some 512,
       architecture = Some (dockerArchitecture env),
       environment = [(''SOURCE_BUCKET_NAME'', BucketName ''knowledgeBase''),
                      (''DESTINATION_BUCKET_NAME'', BucketName ''processedText'')]\<rparr>,
     \<lparr>fnId = ''rdsDdlTriggerFn'', code = ''../lambda/rds-ddl-trigger'',
       timeout = minutes 2, memorySize = None, architecture = None,
       environment = [(''RDS_DDL_QUEUE_URL'', QueueUrl ''rdsDdlDetectionQueue'')]\<rparr>,
     \<lparr>fnId = ''pgvectorTrigger'', code = ''../lambda/pgvector-trigger'',
       timeout = minutes 2, memorySize = None, architecture = None,
       environment = [(''PGVECTOR_UPDATE_QUEUE'', QueueUrl ''pgVectorUpdateQueue''),
                      (''BUCKET_NAME'', BucketName ''processedText'')]\<rparr>,
     \<lparr>fnId = ''appClientCreateTrigger'', code = ''../lambda/app-client-create-trigger'',
       timeout = minutes 2, memorySize = None, architecture = None,
       environment = [(''TRIGGER_QUEUE'', QueueUrl ''appClientCreateQueue'')]\<rparr>,
     \<lparr>fnId = ''callBackInit'', code = ''../lambda/call-back-url-init'',
       timeout = minutes 2, memorySize = None, architecture = None,
       environment = [(''USER_POOL_ID'', UserPoolId ''UserPool''),
                      (''APP_CLIENT_ID'', UserPoolClientId ''WebClient''),
                      (''ALB_DNS_NAME'', LoadBalancerDnsName ''ragAppLb''),
                      (''SQS_QUEUE_URL'', QueueUrl ''appClientCreateQueue'')]\<rparr>,
     \<lparr>fnId = ''callBackUpdate'', code = ''../lambda/call-back-url-update'',
       timeout = minutes 2, memorySize = None, architecture = None,
       environment = [(''USER_POOL_ID'', UserPoolId ''UserPool''),
                      (''APP_CLIENT_ID'', UserPoolClientId ''WebClient''),
                      (''ALB_DNS_NAME'', LoadBalancerDnsName ''ragAppLb'')]\<rparr>]"
  using assms
  by (auto simp: BaseInfraStack_def Let_def stack_calls queueUrl_def bucketName_def
      split: if_splits)

lemma base_clients:
  assumes "BaseInfraStack env = Inr b"
  shows "userPoolClients (baseResources b) =
    [\<lparr>clientId = ''WebClient'', userPoolClientName = ''MyAppWebClient'',
      callbackUrls = [Template [Str ''https://'', LoadBalancerDnsName ''ragAppLb'',
                                Str ''/oauth2/idpresponse'']]\<rparr>]"
  using assms by (auto simp: BaseInfraStack_def Let_def stack_calls split: if_splits)

lemma main_Inr:
  assumes "main env = Inr a"
  shows "BaseInfraStack env = Inr (baseInfraStack a)"
    and "rdsStack a = RDSStack"
    and "ddlSourceStack a = DDLSourceRDSStack ''ddlSourceStack'' (dbInstance RDSStack)"
    and "ddlAutomationStack a = RdsDdlAutomationStack env
               \<lparr>ddlTriggerQueue = rdsDdlTriggerQueue (baseInfraStack a),
                rdsInstance = dbInstance RDSStack,
                dbName = rdsDBName RDSStack,
                ddlSourceS3Bucket = sourceS3Bucket (ddlSourceStack a),
                ddlSourceStackName = stackName (ddlSourceStack a)\<rparr>"
    and "pgvectorUpdateStack a = PGVectorUpdateStack env
               \<lparr>pgv_processedBucket = processedBucket (baseInfraStack a),
                pgv_collectionName = pgvectorCollectionName (baseInfraStack a),
                pgv_apiKeySecret = apiKeySecret (baseInfraStack a),
                pgv_databaseCreds = secretArnOrEmpty (dbInstance RDSStack),
                pgv_triggerQueue = pgvectorQueue (baseInfraStack a),
                pgv_dbInstance = dbInstance RDSStack\<rparr>"
    and "ragStack a = RagAppStack
               \<lparr>rag_databaseCreds = secretArnOrEmpty (dbInstance RDSStack),
                rag_collectionName = pgvectorCollectionName (baseInfraStack a),
                rag_apiKeySecret = apiKeySecret (baseInfraStack a),
                rag_dbInstance = dbInstance RDSStack\<rparr>"
  using assms by (auto simp: main_def Let_def split: sum.splits)

lemma main_ok:
  assumes "BaseInfraStack env = Inr b"
  shows "\<exists>a. main env = Inr a"
  using assms by (simp add: main_def Let_def)

lemma exampleEnv_ok: "\<exists>a. main exampleEnv = Inr a"
proof -
  have "\<exists>b. BaseInfraStack exampleEnv = Inr b"
    by (rule BaseInfraStack_ok)
       (simp_all add: exampleEnv_def orElse_def validRegions_def validDomainPrefix_def)
  then show ?thesis using main_ok by blast
qed

lemma auto_functions:
  "lambdaFunctions (RdsDdlAutomationStack env props) =
    [\<lparr>fnId = ''ddlDeployFn'', code = ''../lambda/rds-ddl-init/'',
       timeout = minutes 3, memorySize = None, architecture = Some (dockerArchitecture env),
       environment = [(''DB_NAME'', Str (dbName props)),
                      (''SQS_QUEUE_URL'', queueUrl (ddlTriggerQueue props)),
                      (''DDL_SOURCE_BUCKET'', bucketName (ddlSourceS3Bucket props))]\<rparr>,
     \<lparr>fnId = ''ddlChangeFn'', code = ''../lambda/rds-ddl-change/'',
       timeout = minutes 10, memorySize = None, architecture = Some (dockerArchitecture env),
       environment = [(''DB_NAME'', Str (dbName props)),
                      (''SQS_QUEUE_URL'', queueUrl (ddlTriggerQueue props)),
                      (''DDL_SOURCE_BUCKET'', bucketName (ddlSourceS3Bucket props))]\<rparr>]"
  by (simp add: RdsDdlAutomationStack_def Let_def stack_calls)

lemma auto_wiring:
  "eventSources (RdsDdlAutomationStack env props) = [(''ddlDeployFn'', queueId (ddlTriggerQueue props))]"
  "targets (RdsDdlAutomationStack env props) = [(''cfnChangesetRule'', ''ddlChangeFn'')]"
  "notifications (RdsDdlAutomationStack env props) = []"
  "rules (RdsDdlAutomationStack env props) =
    [\<lparr>ruleId = ''cfnChangesetRule'', eventPattern =
        [([''source''], [Str ''aws.cloudformation'']),
         ([''detail'', ''eventSource''], [Str ''cloudformation.amazonaws.com'']),
         ([''detail'', ''eventName''], [Str ''ExecuteChangeSet'']),
         ([''detail'', ''requestParameters'', ''stackName''], [Str (ddlSourceStackName props)])]\<rparr>]"
  by (simp_all add: RdsDdlAutomationStack_def Let_def stack_calls)

lemma auto_grants:
  "grants (RdsDdlAutomationStack env props) =
    [(''ddlDeployFn'', Connect (dbId (rdsInstance props))),
     (''ddlDeployFn'', BucketRead (bucketId (ddlSourceS3Bucket props))),
     (''ddlDeployFn'', ManagedPolicy ''SecretsManagerReadWrite''),
     (''ddlChangeFn'', BucketRead (bucketId (ddlSourceS3Bucket props))),
     (''ddlChangeFn'', ManagedPolicy ''SecretsManagerReadWrite''),
     (''ddlDeployFn'', Connect (dbId (rdsInstance props))),
     (''ddlChangeFn'', ManagedPolicy ''AmazonRDSReadOnlyAccess'')]"
  by (simp add: RdsDdlAutomationStack_def Let_def stack_calls)

lemma pgv_functions:
  "lambdaFunctions (PGVectorUpdateStack env props) =
    [\<lparr>fnId = ''pgvectorUpdate'', code = ''../lambda/pgvector-update/'',
       timeout = minutes 3, memorySize = Some 512,
       architecture = Some (dockerArchitecture env),
       environment = [(''API_KEY_SECRET_NAME'', secretName (pgv_apiKeySecret props)),
                      (''DB_CREDS'', pgv_databaseCreds props),
                      (''COLLECTION_NAME'', pgv_collectionName props),
                      (''QUEUE_URL'', queueUrl (pgv_triggerQueue props)),
                      (''NLTK_DATA'', Str ''/tmp'')]\<rparr>]"
  by (simp add: PGVectorUpdateStack_def Let_def stack_calls)

lemma pgv_wiring:
  "eventSources (PGVectorUpdateStack env props) = [(''pgvectorUpdate'', queueId (pgv_triggerQueue props))]"
  "targets (PGVectorUpdateStack env props) = []"
  "notifications (PGVectorUpdateStack env props) = []"
  by (simp_all add: PGVectorUpdateStack_def Let_def stack_calls)

lemma rag_wiring:
  "eventSources (RagAppStack props) = []"
  "targets (RagAppStack props) = []"
  "notifications (RagAppStack props) = []"
  "lambdaFunctions (RagAppStack props) = []"
  by (simp_all add: RagAppStack_def Let_def stack_calls)

lemma rag_containers:
  "containers (RagAppStack props) =
    [\<lparr>containerId = ''rag-container'', containerName = ''ragAppPostgresVec'',
      containerEnvironment =
        [(''AWS_REGION'', Template [Region]),
         (''DB_CREDS'', rag_databaseCreds props),
         (''COLLECTION_NAME'', rag_collectionName props),
         (''API_KEY_SECRET_NAME'', secretName (rag_apiKeySecret props))],
      containerPorts = [(8501, 8501)]\<rparr>]"
  by (simp add: RagAppStack_def Let_def stack_calls)

lemma rds_wiring:
  "eventSources (rdsResources RDSStack) = []"
  "targets (rdsResources RDSStack) = []"
  "notifications (rdsResources RDSStack) = []"
  "lambdaFunctions (rdsResources RDSStack) = []"
  "rdsDBName RDSStack = ''postgres''"
  "dbInstance RDSStack = \<lparr>dbId = ''rdsInstance'', engine = ''POSTGRES'',
     credentials = FromGeneratedSecret ''postgres'',
     dbSecret = Some \<lparr>secretId = ''rdsInstanceSecret''\<rparr>\<rparr>"
  by (simp_all add: RDSStack_def Let_def stack_calls DatabaseInstance_def)

lemma ddlSource_wiring:
  "eventSources (ddlSourceResources (DDLSourceRDSStack i db)) = []"
  "targets (ddlSourceResources (DDLSourceRDSStack i db)) = []"
  "notifications (ddlSourceResources (DDLSourceRDSStack i db)) = []"
  "lambdaFunctions (ddlSourceResources (DDLSourceRDSStack i db)) = []"
  "stackName (DDLSourceRDSStack i db) = i"
  "bucketId (sourceS3Bucket (DDLSourceRDSStack i db)) = ''ddlSourceBucket''"
  by (simp_all add: DDLSourceRDSStack_def Let_def stack_calls)

lemma appTriggers_ddl:
  assumes "main env = Inr a"
  shows "appTriggersOf a ''ddlDeployFn'' = [SqsTrigger ''rdsDdlDetectionQueue'']"
    and "appTriggersOf a ''ddlChangeFn'' = [RuleTrigger ''cfnChangesetRule'']"
proof -
  note b = main_Inr(1) [OF assms]
  note st = main_Inr(2-6) [OF assms]
  show "appTriggersOf a ''ddlDeployFn'' = [SqsTrigger ''rdsDdlDetectionQueue'']"
    by (simp add: appTriggersOf_def appStacks_def triggersOf_def st base_fields [OF b]
        base_eventSources [OF b] base_targets [OF b] base_notifications [OF b]
        auto_wiring pgv_wiring rag_wiring rds_wiring ddlSource_wiring)
  show "appTriggersOf a ''ddlChangeFn'' = [RuleTrigger ''cfnChangesetRule'']"
    by (simp add: appTriggersOf_def appStacks_def triggersOf_def st base_fields [OF b]
        base_eventSources [OF b] base_targets [OF b] base_notifications [OF b]
        auto_wiring pgv_wiring rag_wiring rds_wiring ddlSource_wiring)
qed

lemma base_invoked_detector:
  assumes "BaseInfraStack env = Inr b"
  shows "filter (\<lambda>i. i = ''rdsDdlTriggerFn'') (invoked (baseResources b) e) =
     (if map_of e [''source''] = Some ''aws.rds''
       \<and> map_of e [''detail'', ''eventSource''] = Some ''rds.amazonaws.com''
       \<and> map_of e [''detail'', ''eventName''] = Some ''CreateDBInstance''
      then [''rdsDdlTriggerFn''] else [])"
  by (simp add: invoked_def base_rules [OF assms] base_targets [OF assms] matchesPattern_def
      split: option.splits)

lemma changeDetector_base:
  assumes "BaseInfraStack env = Inr b"
  shows "changeDetector (baseResources b) e =
     (if map_of e [''source''] = Some ''aws.rds''
       \<and> map_of e [''detail'', ''eventSource''] = Some ''rds.amazonaws.com''
       \<and> map_of e [''detail'', ''eventName''] = Some ''CreateDBInstance''
      then [\<lparr>sendQueueUrl = queueUrl (rdsDdlTriggerQueue b), messageBody = e\<rparr>] else [])"
  by (simp add: changeDetector_def base_invoked_detector [OF assms] lookupFn_def
      base_functions [OF assms] base_fields [OF assms] rdsDdlTrigger_handler_def queueUrl_def)

lemma callBack_handler_idem: "callBack_handler d f (callBack_handler d f idp) = callBack_handler d f idp"
  by (simp add: callBack_handler_def split: option.splits)

lemma lower_upper_letters:
  "map lower_char ''ABCDEFGHIJKLMNOPQRSTUVWXYZ'' = ''abcdefghijklmnopqrstuvwxyz''"
  by code_simp

lemma upper_letter_codes:
  "map of_char ''ABCDEFGHIJKLMNOPQRSTUVWXYZ'' = [65 ..< (91::nat)]"
  by code_simp

lemma upper_letter_iff:
  "c \<in> set ''ABCDEFGHIJKLMNOPQRSTUVWXYZ'' \<longleftrightarrow> 65 \<le> (of_char c :: nat) \<and> (of_char c :: nat) \<le> 90"
proof -
  have "c \<in> set ''ABCDEFGHIJKLMNOPQRSTUVWXYZ'' \<longleftrightarrow>
        (of_char c :: nat) \<in> of_char ` set ''ABCDEFGHIJKLMNOPQRSTUVWXYZ''"
    using inj_image_mem_iff [of "of_char :: char \<Rightarrow> nat" c] by (simp only: inj_of_char)
  also have "of_char ` set ''ABCDEFGHIJKLMNOPQRSTUVWXYZ'' = set [65 ..< (91::nat)]"
    by (simp only: upper_letter_codes [symmetric] set_map)
  also have "(of_char c :: nat) \<in> set [65 ..< 91] \<longleftrightarrow> 65 \<le> (of_char c :: nat) \<and> (of_char c :: nat) \<le> 90"
    unfolding set_upt by auto
  finally show ?thesis .
qed

lemma lower_char_table:
  "lower_char c =
     (case map_of (zip ''ABCDEFGHIJKLMNOPQRSTUVWXYZ'' ''abcdefghijklmnopqrstuvwxyz'') c
      of None \<Rightarrow> c | Some l \<Rightarrow> l)"
proof (cases "c \<in> set ''ABCDEFGHIJKLMNOPQRSTUVWXYZ''")
  case True
  then obtain i where i: "i < length ''ABCDEFGHIJKLMNOPQRSTUVWXYZ''"
      and c: "c = ''ABCDEFGHIJKLMNOPQRSTUVWXYZ'' ! i"
    unfolding in_set_conv_nth by blast
  have "map lower_char ''ABCDEFGHIJKLMNOPQRSTUVWXYZ'' ! i = lower_char (''ABCDEFGHIJKLMNOPQRSTUVWXYZ'' ! i)"
    using i by (rule nth_map)
  then have l: "lower_char c = ''abcdefghijklmnopqrstuvwxyz'' ! i"
    unfolding lower_upper_letters c by (rule sym)
  have d: "distinct ''ABCDEFGHIJKLMNOPQRSTUVWXYZ''" by simp
  have len: "length ''ABCDEFGHIJKLMNOPQRSTUVWXYZ'' = length ''abcdefghijklmnopqrstuvwxyz''" by simp
  have "map_of (zip ''ABCDEFGHIJKLMNOPQRSTUVWXYZ'' ''abcdefghijklmnopqrstuvwxyz'')
          (''ABCDEFGHIJKLMNOPQRSTUVWXYZ'' ! i)
        = Some (''abcdefghijklmnopqrstuvwxyz'' ! i)"
    using len d i [unfolded len] by (rule map_of_zip_nth)
  then have "map_of (zip ''ABCDEFGHIJKLMNOPQRSTUVWXYZ'' ''abcdefghijklmnopqrstuvwxyz'') c
        = Some (''abcdefghijklmnopqrstuvwxyz'' ! i)"
    unfolding c .
  with l show ?thesis by (simp only: option.case)
next
  case False
  have len: "length ''ABCDEFGHIJKLMNOPQRSTUVWXYZ'' = length ''abcdefghijklmnopqrstuvwxyz''" by simp
  have "map fst (zip ''ABCDEFGHIJKLMNOPQRSTUVWXYZ'' ''abcdefghijklmnopqrstuvwxyz'')
        = ''ABCDEFGHIJKLMNOPQRSTUVWXYZ''"
    using len by (rule map_fst_zip)
  then have "fst ` set (zip ''ABCDEFGHIJKLMNOPQRSTUVWXYZ'' ''abcdefghijklmnopqrstuvwxyz'')
        = set ''ABCDEFGHIJKLMNOPQRSTUVWXYZ''"
    unfolding set_map [symmetric] by (rule arg_cong)
  with False
  have n: "map_of (zip ''ABCDEFGHIJKLMNOPQRSTUVWXYZ'' ''abcdefghijklmnopqrstuvwxyz'') c = None"
    unfolding map_of_eq_None_iff by (rule ssubst [where P = "\<lambda>S. c \<notin> S", rotated])
  from False have "\<not> (65 \<le> (of_char c :: nat) \<and> (of_char c :: nat) \<le> 90)"
    unfolding upper_letter_iff .
  then have "lower_char c = c"
    unfolding lower_char_def Let_def by (simp only: if_False)
  with n show ?thesis by (simp only: option.case)
qed

lemma lower_table:
  "lower h =
     map (\<lambda>c. case map_of (zip ''ABCDEFGHIJKLMNOPQRSTUVWXYZ'' ''abcdefghijklmnopqrstuvwxyz'') c
              of None \<Rightarrow> c | Some l \<Rightarrow> l) h"
  unfolding lower_def by (rule map_cong [OF refl lower_char_table])

lemma lower_no_upper: "c \<in> set (lower h) \<Longrightarrow> c \<notin> set ''ABCDEFGHIJKLMNOPQRSTUVWXYZ''"
proof -
  assume "c \<in> set (lower h)"
  then obtain x where x: "c = lower_char x" unfolding lower_def set_map by blast
  show ?thesis
  proof (cases "65 \<le> (of_char x :: nat) \<and> (of_char x :: nat) \<le> 90")
    case True
    then have "c = char_of ((of_char x :: nat) + 32)"
      unfolding x lower_char_def Let_def by (simp only: if_True simp_thms)
    then have "(of_char c :: nat) = (of_char x + 32) mod 256"
      by (simp only: of_char_of)
    with True have "\<not> (of_char c :: nat) \<le> 90" by simp
    then show ?thesis unfolding upper_letter_iff by simp
  next
    case False
    then have "c = x" unfolding x lower_char_def Let_def by (simp only: if_False)
    with False show ?thesis unfolding upper_letter_iff by simp
  qed
qed

lemma base_callBack_fn:
  assumes "BaseInfraStack env = Inr b"
    and "lookupFn (baseResources b) i = Some f"
    and "i = ''callBackInit'' \<or> i = ''callBackUpdate''"
  shows "map_of (environment f) ''APP_CLIENT_ID'' = Some (UserPoolClientId ''WebClient'')"
    and "map_of (environment f) ''ALB_DNS_NAME'' = Some (LoadBalancerDnsName ''ragAppLb'')"
  using assms(2,3) by (auto simp: lookupFn_def base_functions [OF assms(1)])

lemma BaseInfraStack_region:
  "orElse (env ''CDK_DEFAULT_REGION'') ''us-east-1'' \<notin> set validRegions \<Longrightarrow>
   BaseInfraStack env = Inl (Error ''Unsupported CDK_DEFAULT_REGION specified'')"
  by (simp add: BaseInfraStack_def Let_def)

lemma BaseInfraStack_cert:
  \<open>orElse (env ''CDK_DEFAULT_REGION'') ''us-east-1'' \<in> set validRegions \<Longrightarrow>
   env ''IAM_SELF_SIGNED_SERVER_CERT_NAME'' = None \<or> env ''IAM_SELF_SIGNED_SERVER_CERT_NAME'' = Some '''' \<Longrightarrow>
   BaseInfraStack env = Inl (Error ''Please specify the "IAM_SELF_SIGNED_SERVER_CERT_NAME" env var'')\<close>
  by (auto simp add: BaseInfraStack_def Let_def)

lemma BaseInfraStack_cognito:
  \<open>orElse (env ''CDK_DEFAULT_REGION'') ''us-east-1'' \<in> set validRegions \<Longrightarrow>
   env ''IAM_SELF_SIGNED_SERVER_CERT_NAME'' \<noteq> None \<Longrightarrow>
   env ''IAM_SELF_SIGNED_SERVER_CERT_NAME'' \<noteq> Some '''' \<Longrightarrow>
   env ''COGNITO_DOMAIN_NAME'' = None \<or> env ''COGNITO_DOMAIN_NAME'' = Some '''' \<Longrightarrow>
   BaseInfraStack env = Inl (Error ''Please specify the "COGNITO_DOMAIN_NAME" env var'')\<close>
  by (auto simp add: BaseInfraStack_def Let_def)

section \<open>The claims\<close>

text \<open>
  C1 (as the code has it). In the application the program builds, the DDL trigger
  queue has a visibility window of 6 minutes; the only function that polls it is the
  init-path worker \<open>ddlDeployFn\<close>, whose timeout is 3 minutes, so the window covers
  every worker that consumes from the queue. The change-path worker \<open>ddlChangeFn\<close> is
  not among the queue's consumers; its timeout is 10 minutes, which the window is
  shorter than.
\<close>

theorem ddl_queue_visibility_covers_consumers:
  assumes "main env = Inr a"
  shows "visibilityTimeout (rdsDdlTriggerQueue (baseInfraStack a)) = minutes 6
    \<and> map fnId (consumersOf a (queueId (rdsDdlTriggerQueue (baseInfraStack a)))) = [''ddlDeployFn'']
    \<and> map timeout (consumersOf a (queueId (rdsDdlTriggerQueue (baseInfraStack a)))) = [minutes 3]
    \<and> list_all (\<lambda>f. timeout f \<le> visibilityTimeout (rdsDdlTriggerQueue (baseInfraStack a)))
           (consumersOf a (queueId (rdsDdlTriggerQueue (baseInfraStack a))))
    \<and> map_option timeout (lookupFn (ddlAutomationStack a) ''ddlChangeFn'') = Some (minutes 10)
    \<and> visibilityTimeout (rdsDdlTriggerQueue (baseInfraStack a)) < minutes 10"
proof -
  note b = main_Inr(1) [OF assms]
  note st = main_Inr(2-6) [OF assms]
  have c: "consumersOf a ''rdsDdlDetectionQueue'' =
      [\<lparr>fnId = ''ddlDeployFn'', code = ''../lambda/rds-ddl-init/'',
       timeout = minutes 3, memorySize = None, architecture = Some (dockerArchitecture env),
       environment = [(''DB_NAME'', Str ''postgres''),
                      (''SQS_QUEUE_URL'', QueueUrl ''rdsDdlDetectionQueue''),
                      (''DDL_SOURCE_BUCKET'', BucketName ''ddlSourceBucket'')]\<rparr>]"
    by (simp add: consumersOf_def appStacks_def st base_fields [OF b] base_eventSources [OF b]
        base_functions [OF b] auto_functions auto_wiring pgv_functions pgv_wiring rag_wiring
        rds_wiring ddlSource_wiring queueUrl_def bucketName_def)
  have d: "map_option timeout (lookupFn (ddlAutomationStack a) ''ddlChangeFn'') = Some (minutes 10)"
    by (simp add: st lookupFn_def auto_functions)
  show ?thesis
    by (simp add: c d base_fields [OF b] minutes_def)
qed

text \<open>
  C1, at the example environment: the window is 360 seconds and the queue's one
  consumer has a timeout of 180 seconds.
\<close>

theorem ddl_queue_visibility_covers_consumers_witness:
  "case main exampleEnv of Inl x \<Rightarrow> False
   | Inr a \<Rightarrow> visibilityTimeout (rdsDdlTriggerQueue (baseInfraStack a)) = 360
       \<and> map timeout (consumersOf a ''rdsDdlDetectionQueue'') = [180]"
proof -
  obtain a where a: "main exampleEnv = Inr a" using exampleEnv_ok by blast
  show ?thesis
    using ddl_queue_visibility_covers_consumers [OF a]
    by (simp add: a base_fields [OF main_Inr(1) [OF a]] minutes_def)
qed

text \<open>
  C1 as stated fails: at the example environment the change-path worker's timeout
  (600 seconds) is not within the queue's visibility window (360 seconds).
\<close>

theorem ddl_queue_visibility_counterexample:
  "case main exampleEnv of Inl x \<Rightarrow> False
   | Inr a \<Rightarrow>
      (case lookupFn (ddlAutomationStack a) ''ddlChangeFn'' of None \<Rightarrow> False
       | Some f \<Rightarrow> \<not> timeout f \<le> visibilityTimeout (rdsDdlTriggerQueue (baseInfraStack a)))"
proof -
  obtain a where a: "main exampleEnv = Inr a" using exampleEnv_ok by blast
  show ?thesis
    by (simp add: a main_Inr(2-6) [OF a] base_fields [OF main_Inr(1) [OF a]] lookupFn_def
        auto_functions minutes_def)
qed

text \<open>
  C2 (as the code has it). In the application the program builds, the init-path worker
  \<open>ddlDeployFn\<close> is invoked by one thing only, a message dequeued from the DDL trigger
  queue. The change-path worker \<open>ddlChangeFn\<close> is invoked by one thing only, the rule
  \<open>cfnChangesetRule\<close>, which matches an ExecuteChangeSet call on the DDL source stack
  and has the function as its direct target: no queue stands between them.
\<close>

theorem ddl_worker_triggers:
  assumes "main env = Inr a"
  shows "appTriggersOf a ''ddlDeployFn'' = [SqsTrigger (queueId (rdsDdlTriggerQueue (baseInfraStack a)))]
    \<and> appTriggersOf a ''ddlChangeFn'' = [RuleTrigger ''cfnChangesetRule'']
    \<and> map_option eventPattern (lookupRule (ddlAutomationStack a) ''cfnChangesetRule'') =
        Some [([''source''], [Str ''aws.cloudformation'']),
              ([''detail'', ''eventSource''], [Str ''cloudformation.amazonaws.com'']),
              ([''detail'', ''eventName''], [Str ''ExecuteChangeSet'']),
              ([''detail'', ''requestParameters'', ''stackName''], [Str ''ddlSourceStack''])]"
  by (simp add: appTriggers_ddl [OF assms] base_fields [OF main_Inr(1) [OF assms]]
      main_Inr(2-6) [OF assms] lookupRule_def auto_wiring ddlSource_wiring)

text \<open>
  C2, at the example environment.
\<close>

theorem ddl_worker_triggers_witness:
  "case main exampleEnv of Inl x \<Rightarrow> False
   | Inr a \<Rightarrow> appTriggersOf a ''ddlDeployFn'' = [SqsTrigger ''rdsDdlDetectionQueue'']
       \<and> appTriggersOf a ''ddlChangeFn'' = [RuleTrigger ''cfnChangesetRule'']"
proof -
  obtain a where a: "main exampleEnv = Inr a" using exampleEnv_ok by blast
  show ?thesis
    using ddl_worker_triggers [OF a]
    by (simp add: a base_fields [OF main_Inr(1) [OF a]])
qed

text \<open>
  C2 as stated fails: at the example environment the triggers of the change-path worker
  are not contained in the set holding only the trigger queue.
\<close>

theorem ddl_worker_triggers_counterexample:
  "case main exampleEnv of Inl x \<Rightarrow> False
   | Inr a \<Rightarrow> \<not> set (appTriggersOf a ''ddlChangeFn'')
        \<subseteq> {SqsTrigger (queueId (rdsDdlTriggerQueue (baseInfraStack a)))}"
proof -
  obtain a where a: "main exampleEnv = Inr a" using exampleEnv_ok by blast
  show ?thesis
    by (simp add: a appTriggers_ddl [OF a])
qed

text \<open>
  C3. For every event, the Change Detector declared by \<open>BaseInfraStack\<close> makes no
  send attempt when the event does not match (source \<open>aws.rds\<close>, eventSource
  \<open>rds.amazonaws.com\<close>, eventName \<open>CreateDBInstance\<close>) and exactly one, to the DDL
  trigger queue, when it does. Over a sequence of events the messages sent are exactly
  the matching events, in order and with their repetitions: nothing is deduplicated.
\<close>

theorem change_detector_one_send_per_match:
  assumes "BaseInfraStack env = Inr b"
  shows "changeDetector (baseResources b) e =
       (if map_of e [''source''] = Some ''aws.rds''
         \<and> map_of e [''detail'', ''eventSource''] = Some ''rds.amazonaws.com''
         \<and> map_of e [''detail'', ''eventName''] = Some ''CreateDBInstance''
        then [\<lparr>sendQueueUrl = queueUrl (rdsDdlTriggerQueue b), messageBody = e\<rparr>] else [])
     \<and> map messageBody (concat (map (changeDetector (baseResources b)) es)) =
        filter (\<lambda>e. map_of e [''source''] = Some ''aws.rds''
         \<and> map_of e [''detail'', ''eventSource''] = Some ''rds.amazonaws.com''
         \<and> map_of e [''detail'', ''eventName''] = Some ''CreateDBInstance'') es"
proof
  show "changeDetector (baseResources b) e =
     (if map_of e [''source''] = Some ''aws.rds''
       \<and> map_of e [''detail'', ''eventSource''] = Some ''rds.amazonaws.com''
       \<and> map_of e [''detail'', ''eventName''] = Some ''CreateDBInstance''
      then [\<lparr>sendQueueUrl = queueUrl (rdsDdlTriggerQueue b), messageBody = e\<rparr>] else [])"
    by (rule changeDetector_base [OF assms])
  show "map messageBody (concat (map (changeDetector (baseResources b)) es)) =
      filter (\<lambda>e. map_of e [''source''] = Some ''aws.rds''
       \<and> map_of e [''detail'', ''eventSource''] = Some ''rds.amazonaws.com''
       \<and> map_of e [''detail'', ''eventName''] = Some ''CreateDBInstance'') es"
    by (induction es) (simp_all add: changeDetector_base [OF assms])
qed

text \<open>
  C3, at the example environment: a CreateDBInstance event gives one message, a
  DeleteDBInstance event none, and the same matching event delivered twice gives two.
\<close>

theorem change_detector_one_send_per_match_witness:
  "case BaseInfraStack exampleEnv of Inl x \<Rightarrow> False
   | Inr b \<Rightarrow>
       changeDetector (baseResources b) createDBEvent =
         [\<lparr>sendQueueUrl = QueueUrl ''rdsDdlDetectionQueue'', messageBody = createDBEvent\<rparr>]
       \<and> changeDetector (baseResources b) deleteDBEvent = []
       \<and> map messageBody (concat (map (changeDetector (baseResources b))
            [createDBEvent, deleteDBEvent, createDBEvent])) = [createDBEvent, createDBEvent]"
proof -
  obtain a where "main exampleEnv = Inr a" using exampleEnv_ok by blast
  then have b: "BaseInfraStack exampleEnv = Inr (baseInfraStack a)" by (rule main_Inr)
  show ?thesis
    using change_detector_one_send_per_match [OF b, of createDBEvent
        "[createDBEvent, deleteDBEvent, createDBEvent]"]
      change_detector_one_send_per_match [OF b, of deleteDBEvent "[]"]
    by (simp add: b base_fields [OF b] queueUrl_def createDBEvent_def deleteDBEvent_def)
qed

text \<open>
  C4. Whatever the properties the stack is built with, the init-path worker
  (\<open>ddlDeployFn\<close>) is declared with a timeout of exactly 3 minutes (180 seconds) and the
  change-path worker (\<open>ddlChangeFn\<close>) with a timeout of exactly 10 minutes (600 seconds);
  these are the only two functions of the stack.
\<close>

theorem ddl_worker_timeouts:
  "map_option timeout (lookupFn (RdsDdlAutomationStack env props) ''ddlDeployFn'') = Some (minutes 3)
   \<and> map_option timeout (lookupFn (RdsDdlAutomationStack env props) ''ddlChangeFn'') = Some (minutes 10)
   \<and> minutes 3 = 180 \<and> minutes 10 = 600
   \<and> map fnId (lambdaFunctions (RdsDdlAutomationStack env props)) = [''ddlDeployFn'', ''ddlChangeFn'']"
  by (simp add: lookupFn_def auto_functions minutes_def)

text \<open>
  C6. For every deployment, the stack stores the client's callback URL with the
  load balancer's hostname as the platform assigned it. After the patch worker (either
  \<open>callBackInit\<close> or \<open>callBackUpdate\<close>, as \<open>BaseInfraStack\<close> declares them) has run,
  whatever was stored before, the stored callback URL of that client is built from the
  hostname with each of the letters A to Z replaced by its lower-case letter and every
  other character kept; no upper-case letter is left in that hostname. Running the
  worker again changes nothing.
\<close>

theorem callback_patch_lowercase_idempotent:
  assumes "BaseInfraStack env = Inr b"
    and "lookupFn (baseResources b) i = Some f"
    and "i = ''callBackInit'' \<or> i = ''callBackUpdate''"
  shows "deployClients d (baseResources b) (d (UserPoolClientId ''WebClient'')) =
           Some [''https://'' @ d (LoadBalancerDnsName ''ragAppLb'') @ ''/oauth2/idpresponse'']
    \<and> callBack_handler d f idp (d (UserPoolClientId ''WebClient'')) =
           Some [''https://''
             @ map (\<lambda>c. case map_of (zip ''ABCDEFGHIJKLMNOPQRSTUVWXYZ''
                                          ''abcdefghijklmnopqrstuvwxyz'') c
                         of None \<Rightarrow> c | Some l \<Rightarrow> l)
                 (d (LoadBalancerDnsName ''ragAppLb''))
             @ ''/oauth2/idpresponse'']
    \<and> (\<forall>c \<in> set (map (\<lambda>c. case map_of (zip ''ABCDEFGHIJKLMNOPQRSTUVWXYZ''
                                          ''abcdefghijklmnopqrstuvwxyz'') c
                         of None \<Rightarrow> c | Some l \<Rightarrow> l)
                 (d (LoadBalancerDnsName ''ragAppLb''))).
          c \<notin> set ''ABCDEFGHIJKLMNOPQRSTUVWXYZ'')
    \<and> callBack_handler d f (callBack_handler d f idp) = callBack_handler d f idp"
proof -
  have stored: "callBack_handler d f idp (d (UserPoolClientId ''WebClient'')) =
      Some [''https://'' @ lower (d (LoadBalancerDnsName ''ragAppLb'')) @ ''/oauth2/idpresponse'']"
    by (simp add: callBack_handler_def base_callBack_fn [OF assms])
  have deployed: "deployClients d (baseResources b) (d (UserPoolClientId ''WebClient'')) =
      Some [''https://'' @ d (LoadBalancerDnsName ''ragAppLb'') @ ''/oauth2/idpresponse'']"
    by (simp add: deployClients_def base_clients [OF assms(1)])
  have no_upper: "\<forall>c \<in> set (lower (d (LoadBalancerDnsName ''ragAppLb''))).
      c \<notin> set ''ABCDEFGHIJKLMNOPQRSTUVWXYZ''"
    using lower_no_upper by blast
  show ?thesis
    using stored deployed no_upper callBack_handler_idem [of d f idp]
    unfolding lower_table [of "d (LoadBalancerDnsName ''ragAppLb'')"]
    by blast
qed

text \<open>
  C6, at the example deployment: the hostname \<open>ABC123.elb.amazonaws.com\<close> is stored
  as deployed, and as \<open>abc123.elb.amazonaws.com\<close> after the patch; a second patch is a
  no-op.
\<close>

theorem callback_patch_lowercase_idempotent_witness:
  "case BaseInfraStack exampleEnv of Inl x \<Rightarrow> False
   | Inr b \<Rightarrow>
      (case lookupFn (baseResources b) ''callBackInit'' of None \<Rightarrow> False
       | Some f \<Rightarrow>
           deployClients exampleDeployment (baseResources b) ''client-1'' =
             Some [''https://ABC123.elb.amazonaws.com/oauth2/idpresponse'']
         \<and> callBack_handler exampleDeployment f (deployClients exampleDeployment (baseResources b))
              ''client-1'' = Some [''https://abc123.elb.amazonaws.com/oauth2/idpresponse'']
         \<and> callBack_handler exampleDeployment f
              (callBack_handler exampleDeployment f (deployClients exampleDeployment (baseResources b)))
            = callBack_handler exampleDeployment f (deployClients exampleDeployment (baseResources b)))"
proof -
  obtain a where "main exampleEnv = Inr a" using exampleEnv_ok by blast
  then have b: "BaseInfraStack exampleEnv = Inr (baseInfraStack a)" by (rule main_Inr)
  obtain f where f: "lookupFn (baseResources (baseInfraStack a)) ''callBackInit'' = Some f"
    by (simp add: lookupFn_def base_functions [OF b])
  show ?thesis
    using callback_patch_lowercase_idempotent [OF b f, of exampleDeployment
        "deployClients exampleDeployment (baseResources (baseInfraStack a))"]
    by (simp add: b f exampleDeployment_def)
qed

text \<open>
  C7 (the code where the claim fails). Whatever the properties, what the stack
  grants the init-path worker contains connect access to the database, twice; what it
  grants the change-path worker is read access to the DDL bucket and two managed
  policies, and connect access to the database is not among them.
\<close>

theorem ddl_change_worker_lacks_connect:
  "grantsOf (RdsDdlAutomationStack env props) ''ddlDeployFn'' =
      [Connect (dbId (rdsInstance props)), BucketRead (bucketId (ddlSourceS3Bucket props)),
       ManagedPolicy ''SecretsManagerReadWrite'', Connect (dbId (rdsInstance props))]
   \<and> grantsOf (RdsDdlAutomationStack env props) ''ddlChangeFn'' =
      [BucketRead (bucketId (ddlSourceS3Bucket props)),
       ManagedPolicy ''SecretsManagerReadWrite'', ManagedPolicy ''AmazonRDSReadOnlyAccess'']
   \<and> Connect (dbId (rdsInstance props)) \<notin> set (grantsOf (RdsDdlAutomationStack env props) ''ddlChangeFn'')"
  by (simp add: grantsOf_def auto_grants)

text \<open>
  C8. In the application the program builds, the environment of each DDL worker is
  exactly \<open>DB_NAME\<close> (the database name), \<open>SQS_QUEUE_URL\<close> (the URL of the DDL trigger
  queue) and \<open>DDL_SOURCE_BUCKET\<close> (the name of the DDL source bucket); the environment of
  the Change Detector is exactly \<open>RDS_DDL_QUEUE_URL\<close>, the URL of that same queue, the
  one queue it is allowed to send to.
\<close>

theorem ddl_environment_endpoints:
  assumes "main env = Inr a"
  shows "map_option environment (lookupFn (ddlAutomationStack a) ''ddlDeployFn'') =
        Some [(''DB_NAME'', Str (rdsDBName (rdsStack a))),
              (''SQS_QUEUE_URL'', queueUrl (rdsDdlTriggerQueue (baseInfraStack a))),
              (''DDL_SOURCE_BUCKET'', bucketName (sourceS3Bucket (ddlSourceStack a)))]
    \<and> map_option environment (lookupFn (ddlAutomationStack a) ''ddlChangeFn'') =
        Some [(''DB_NAME'', Str (rdsDBName (rdsStack a))),
              (''SQS_QUEUE_URL'', queueUrl (rdsDdlTriggerQueue (baseInfraStack a))),
              (''DDL_SOURCE_BUCKET'', bucketName (sourceS3Bucket (ddlSourceStack a)))]
    \<and> map_option environment (lookupFn (baseResources (baseInfraStack a)) ''rdsDdlTriggerFn'') =
        Some [(''RDS_DDL_QUEUE_URL'', queueUrl (rdsDdlTriggerQueue (baseInfraStack a)))]
    \<and> grantsOf (baseResources (baseInfraStack a)) ''rdsDdlTriggerFn'' =
        [SendMessages (queueId (rdsDdlTriggerQueue (baseInfraStack a)))]
    \<and> rdsDBName (rdsStack a) = ''postgres''
    \<and> queueUrl (rdsDdlTriggerQueue (baseInfraStack a)) = QueueUrl ''rdsDdlDetectionQueue''
    \<and> bucketName (sourceS3Bucket (ddlSourceStack a)) = BucketName ''ddlSourceBucket''"
proof -
  note b = main_Inr(1) [OF assms]
  note st = main_Inr(2-6) [OF assms]
  show ?thesis
    by (simp add: st lookupFn_def auto_functions base_functions [OF b] base_fields [OF b]
        grantsOf_def base_grants [OF b] rds_wiring ddlSource_wiring queueUrl_def bucketName_def)
qed

text \<open>
  C8, at the example environment.
\<close>

theorem ddl_environment_endpoints_witness:
  "case main exampleEnv of Inl x \<Rightarrow> False
   | Inr a \<Rightarrow> map_option environment (lookupFn (ddlAutomationStack a) ''ddlDeployFn'')
         = Some [(''DB_NAME'', Str ''postgres''),
                 (''SQS_QUEUE_URL'', QueueUrl ''rdsDdlDetectionQueue''),
                 (''DDL_SOURCE_BUCKET'', BucketName ''ddlSourceBucket'')]
       \<and> map_option environment (lookupFn (ddlAutomationStack a) ''ddlChangeFn'')
         = Some [(''DB_NAME'', Str ''postgres''),
                 (''SQS_QUEUE_URL'', QueueUrl ''rdsDdlDetectionQueue''),
                 (''DDL_SOURCE_BUCKET'', BucketName ''ddlSourceBucket'')]
       \<and> map_option environment (lookupFn (baseResources (baseInfraStack a)) ''rdsDdlTriggerFn'')
         = Some [(''RDS_DDL_QUEUE_URL'', QueueUrl ''rdsDdlDetectionQueue'')]"
proof -
  obtain a where a: "main exampleEnv = Inr a" using exampleEnv_ok by blast
  show ?thesis
    using ddl_environment_endpoints [OF a]
    by (auto simp: a)
qed

text \<open>
  C9. \<open>BaseInfraStack\<close> throws when the region (defaulting to \<open>us-east-1\<close>) is outside
  us-east-1, us-west-2, eu-west-2, when \<open>IAM_SELF_SIGNED_SERVER_CERT_NAME\<close> is undefined
  or empty, and when \<open>COGNITO_DOMAIN_NAME\<close> is undefined or empty; the three checks run
  in that order, each with its own message. With the region variable unset the region
  is \<open>us-east-1\<close> and the region check does not throw.
\<close>

theorem base_infra_rejects_bad_env:
  \<open>(orElse (env ''CDK_DEFAULT_REGION'') ''us-east-1'' \<notin> {''us-east-1'', ''us-west-2'', ''eu-west-2''}
      \<or> env ''IAM_SELF_SIGNED_SERVER_CERT_NAME'' = None
      \<or> env ''IAM_SELF_SIGNED_SERVER_CERT_NAME'' = Some ''''
      \<or> env ''COGNITO_DOMAIN_NAME'' = None
      \<or> env ''COGNITO_DOMAIN_NAME'' = Some ''''
      \<longrightarrow> (\<exists>m. BaseInfraStack env = Inl (Error m)))
   \<and> (orElse (env ''CDK_DEFAULT_REGION'') ''us-east-1'' \<notin> {''us-east-1'', ''us-west-2'', ''eu-west-2''}
        \<longrightarrow> BaseInfraStack env = Inl (Error ''Unsupported CDK_DEFAULT_REGION specified''))
   \<and> (orElse (env ''CDK_DEFAULT_REGION'') ''us-east-1'' \<in> {''us-east-1'', ''us-west-2'', ''eu-west-2''}
        \<and> (env ''IAM_SELF_SIGNED_SERVER_CERT_NAME'' = None
            \<or> env ''IAM_SELF_SIGNED_SERVER_CERT_NAME'' = Some '''')
        \<longrightarrow> BaseInfraStack env =
              Inl (Error ''Please specify the "IAM_SELF_SIGNED_SERVER_CERT_NAME" env var''))
   \<and> (orElse (env ''CDK_DEFAULT_REGION'') ''us-east-1'' \<in> {''us-east-1'', ''us-west-2'', ''eu-west-2''}
        \<and> env ''IAM_SELF_SIGNED_SERVER_CERT_NAME'' \<noteq> None
        \<and> env ''IAM_SELF_SIGNED_SERVER_CERT_NAME'' \<noteq> Some ''''
        \<and> (env ''COGNITO_DOMAIN_NAME'' = None \<or> env ''COGNITO_DOMAIN_NAME'' = Some '''')
        \<longrightarrow> BaseInfraStack env = Inl (Error ''Please specify the "COGNITO_DOMAIN_NAME" env var''))
   \<and> (env ''CDK_DEFAULT_REGION'' = None
        \<longrightarrow> orElse (env ''CDK_DEFAULT_REGION'') ''us-east-1'' = ''us-east-1''
          \<and> BaseInfraStack env \<noteq> Inl (Error ''Unsupported CDK_DEFAULT_REGION specified''))\<close>
proof -
  have v: "set validRegions = {''us-east-1'', ''us-west-2'', ''eu-west-2''}"
    by (simp add: validRegions_def)
  have none: "orElse None ''us-east-1'' = ''us-east-1''"
    by (simp add: orElse_def)
  have in_v: "''us-east-1'' \<in> set validRegions"
    by (simp add: validRegions_def)
  have unset: "BaseInfraStack env \<noteq> Inl (Error ''Unsupported CDK_DEFAULT_REGION specified'')"
    if "env ''CDK_DEFAULT_REGION'' = None"
    using that in_v by (auto simp add: BaseInfraStack_def Let_def none)
  have throws: "\<exists>m. BaseInfraStack env = Inl (Error m)"
    if "orElse (env ''CDK_DEFAULT_REGION'') ''us-east-1'' \<notin> set validRegions
      \<or> env ''IAM_SELF_SIGNED_SERVER_CERT_NAME'' = None
      \<or> env ''IAM_SELF_SIGNED_SERVER_CERT_NAME'' = Some ''''
      \<or> env ''COGNITO_DOMAIN_NAME'' = None
      \<or> env ''COGNITO_DOMAIN_NAME'' = Some ''''"
    using that by (auto simp add: BaseInfraStack_def Let_def)
  show ?thesis
    using throws BaseInfraStack_region [of env] BaseInfraStack_cert [of env]
      BaseInfraStack_cognito [of env] unset
    unfolding v
    by (intro conjI impI) (simp_all add: none)
qed

text \<open>
  C9, at six environments: an unsupported region, no variable at all, an empty
  certificate name, an unset and an empty Cognito domain, and the example environment,
  which leaves the region unset and passes the region check.
\<close>

theorem base_infra_rejects_bad_env_witness:
  \<open>BaseInfraStack (exampleEnv(''CDK_DEFAULT_REGION'' \<mapsto> ''ap-south-1'')) =
      Inl (Error ''Unsupported CDK_DEFAULT_REGION specified'')
   \<and> BaseInfraStack Map.empty =
      Inl (Error ''Please specify the "IAM_SELF_SIGNED_SERVER_CERT_NAME" env var'')
   \<and> BaseInfraStack (exampleEnv(''IAM_SELF_SIGNED_SERVER_CERT_NAME'' \<mapsto> [])) =
      Inl (Error ''Please specify the "IAM_SELF_SIGNED_SERVER_CERT_NAME" env var'')
   \<and> BaseInfraStack (exampleEnv(''COGNITO_DOMAIN_NAME'' := None)) =
      Inl (Error ''Please specify the "COGNITO_DOMAIN_NAME" env var'')
   \<and> BaseInfraStack (exampleEnv(''COGNITO_DOMAIN_NAME'' \<mapsto> [])) =
      Inl (Error ''Please specify the "COGNITO_DOMAIN_NAME" env var'')
   \<and> exampleEnv ''CDK_DEFAULT_REGION'' = None
   \<and> BaseInfraStack exampleEnv \<noteq> Inl (Error ''Unsupported CDK_DEFAULT_REGION specified'')\<close>
  using base_infra_rejects_bad_env [of "exampleEnv(''CDK_DEFAULT_REGION'' \<mapsto> ''ap-south-1'')"]
    base_infra_rejects_bad_env [of Map.empty]
    base_infra_rejects_bad_env [of "exampleEnv(''IAM_SELF_SIGNED_SERVER_CERT_NAME'' \<mapsto> [])"]
    base_infra_rejects_bad_env [of "exampleEnv(''COGNITO_DOMAIN_NAME'' := None)"]
    base_infra_rejects_bad_env [of "exampleEnv(''COGNITO_DOMAIN_NAME'' \<mapsto> [])"]
    base_infra_rejects_bad_env [of exampleEnv]
  by (simp add: exampleEnv_def orElse_def)

text \<open>
  C10. In the application the program builds, the \<open>COLLECTION_NAME\<close> of the
  pgvector-update worker and of the RAG container are both the collection name of the
  base stack, and their \<open>DB_CREDS\<close> are both the ARN of the secret generated for the
  database instance.
\<close>

theorem vector_store_config_agrees:
  assumes "main env = Inr a"
  shows "Option.bind (lookupFn (pgvectorUpdateStack a) ''pgvectorUpdate'')
           (\<lambda>f. map_of (environment f) ''COLLECTION_NAME'')
         = Some (pgvectorCollectionName (baseInfraStack a))
    \<and> Option.bind (lookupContainer (ragStack a) ''rag-container'')
           (\<lambda>c. map_of (containerEnvironment c) ''COLLECTION_NAME'')
         = Some (pgvectorCollectionName (baseInfraStack a))
    \<and> Option.bind (lookupFn (pgvectorUpdateStack a) ''pgvectorUpdate'')
           (\<lambda>f. map_of (environment f) ''DB_CREDS'')
         = map_option secretArn (dbSecret (dbInstance (rdsStack a)))
    \<and> Option.bind (lookupContainer (ragStack a) ''rag-container'')
           (\<lambda>c. map_of (containerEnvironment c) ''DB_CREDS'')
         = map_option secretArn (dbSecret (dbInstance (rdsStack a)))
    \<and> dbSecret (dbInstance (rdsStack a)) = Some \<lparr>secretId = ''rdsInstanceSecret''\<rparr>"
proof -
  note st = main_Inr(2-6) [OF assms]
  show ?thesis
    by (simp add: st lookupFn_def lookupContainer_def pgv_functions rag_containers rds_wiring
        secretArnOrEmpty_def)
qed

text \<open>
  C10, at the example environment.
\<close>

theorem vector_store_config_agrees_witness:
  "case main exampleEnv of Inl x \<Rightarrow> False
   | Inr a \<Rightarrow>
      Option.bind (lookupFn (pgvectorUpdateStack a) ''pgvectorUpdate'')
           (\<lambda>f. map_of (environment f) ''COLLECTION_NAME'')
         = Some (Template [Str ''pgvector-collection-'', Str ''us-east-1'', Str ''-'', AccountId])
    \<and> Option.bind (lookupContainer (ragStack a) ''rag-container'')
           (\<lambda>c. map_of (containerEnvironment c) ''COLLECTION_NAME'')
         = Some (Template [Str ''pgvector-collection-'', Str ''us-east-1'', Str ''-'', AccountId])
    \<and> Option.bind (lookupFn (pgvectorUpdateStack a) ''pgvectorUpdate'')
           (\<lambda>f. map_of (environment f) ''DB_CREDS'') = Some (SecretArn ''rdsInstanceSecret'')
    \<and> Option.bind (lookupContainer (ragStack a) ''rag-container'')
           (\<lambda>c. map_of (containerEnvironment c) ''DB_CREDS'') = Some (SecretArn ''rdsInstanceSecret'')"
proof -
  obtain a where a: "main exampleEnv = Inr a" using exampleEnv_ok by blast
  have r: "orElse (exampleEnv ''CDK_DEFAULT_REGION'') ''us-east-1'' = ''us-east-1''"
    by (simp add: exampleEnv_def orElse_def)
  show ?thesis
    using vector_store_config_agrees [OF a]
    by (simp add: a base_fields [OF main_Inr(1) [OF a]] r secretArn_def)
qed

end
